theory Spec2Isabelle
  imports Main
begin

section \<open>The PETSc build-information strings of petscmachineinfo.h\<close>

text \<open>
  The header declares four \<^verbatim>\<open>static const char *\<close> variables, each initialised
  with a sequence of adjacent string literals that the C compiler concatenates.
  A C string is modelled as a \<^typ>\<open>string\<close> (a list of bytes), every literal of the
  header as one literal here, and the concatenation of adjacent literals as \<open>@\<close>.
  The escape \<^verbatim>\<open>\n\<close> of C is the character \<open>CHR ''\<newline>''\<close> (byte 10).
\<close>

definition petscmachineinfo :: string where
  "petscmachineinfo =
     ''\<newline>'' @
     ''-----------------------------------------\<newline>'' @
     ''Libraries compiled on 2024-07-18 12:51:25 on D2000 \<newline>'' @
     ''Machine characteristics: Linux-6.9.8-arm64-aarch64-with-glibc2.38\<newline>'' @
     ''Using PETSc directory: /home/seb/packages/petsc/3.20.3\<newline>'' @
     ''Using PETSc arch: \<newline>'' @
     ''-----------------------------------------\<newline>''"

definition petsccompilerinfo :: string where
  "petsccompilerinfo =
     ''\<newline>'' @
     ''Using C compiler: gcc  -fPIC -Wall -Wwrite-strings -Wno-unknown-pragmas -Wno-lto-type-mismatch -Wno-stringop-overflow -fstack-protector -fvisibility=hidden -g3 -O0  \<newline>'' @
     ''Using Fortran compiler: gfortran  -fPIC -Wall -ffree-line-length-none -ffree-line-length-0 -Wno-lto-type-mismatch -Wno-unused-dummy-argument -g -O0    \<newline>'' @
     ''-----------------------------------------\<newline>''"

definition petsccompilerflagsinfo :: string where
  "petsccompilerflagsinfo =
     ''\<newline>'' @
     ''Using include paths: -I/home/seb/packages/petsc/3.20.3/include\<newline>'' @
     ''-----------------------------------------\<newline>''"

definition petsclinkerinfo :: string where
  "petsclinkerinfo =
     ''\<newline>'' @
     ''Using C linker: gcc\<newline>'' @
     ''Using Fortran linker: gfortran\<newline>'' @
     ''Using libraries: -Wl,-rpath,/home/seb/packages/petsc/3.20.3/lib -L/home/seb/packages/petsc/3.20.3/lib -lpetsc -llapack -lblas -lm -lX11 -lgfortran -lstdc++\<newline>'' @
     ''-----------------------------------------\<newline>''"

section \<open>Lines of a text\<close>

text \<open>
  The properties of the blocks are stated on their lines. A line is a maximal run of
  characters other than newline, ended by a newline; text after the last newline, when
  there is some, is a last line without a newline. \<open>split_at_from d cur s\<close> cuts \<open>s\<close>
  at every delimiter \<open>d\<close>, with the characters of the piece under way held, reversed,
  in \<open>cur\<close>.
\<close>

fun split_at_from :: "char \<Rightarrow> string \<Rightarrow> string \<Rightarrow> string list" where
  "split_at_from d cur [] = (if cur = [] then [] else [rev cur])"
| "split_at_from d cur (c # cs) =
     (if c = d then rev cur # split_at_from d [] cs
      else split_at_from d (c # cur) cs)"

definition split_lines :: "string \<Rightarrow> string list" where
  "split_lines s = split_at_from (CHR ''\<newline>'') [] s"

definition split_words :: "string \<Rightarrow> string list" where
  "split_words s = split_at_from (CHR '' '') [] s"

text \<open>The separator line: 41 hyphen characters.\<close>

definition separator :: string where
  "separator = replicate 41 (CHR ''-'')"

text \<open>The number of space characters at the end of a line.\<close>

definition trailing_spaces :: "string \<Rightarrow> nat" where
  "trailing_spaces l = length (takeWhile (\<lambda>c. c = CHR '' '') (rev l))"

text \<open>\<open>starts_with p s\<close>: the text \<open>s\<close> begins with \<open>p\<close>.\<close>

definition starts_with :: "string \<Rightarrow> string \<Rightarrow> bool" where
  "starts_with p s = (take (length p) s = p)"

text \<open>The positions (from 0) of the separator lines among the lines \<open>ls\<close>, counted from \<open>i\<close>.\<close>

fun separator_lines_from :: "nat \<Rightarrow> string list \<Rightarrow> nat list" where
  "separator_lines_from i [] = []"
| "separator_lines_from i (l # ls) =
     (if l = separator then i # separator_lines_from (Suc i) ls
      else separator_lines_from (Suc i) ls)"

definition separator_lines :: "string \<Rightarrow> nat list" where
  "separator_lines s = separator_lines_from 0 (split_lines s)"

section \<open>The layouts as the specification words them\<close>

text \<open>
  A block that begins with a separator line and ends with one, as the format contract
  says of every block.
\<close>

definition begins_and_ends_with_separator :: "string \<Rightarrow> bool" where
  "begins_and_ends_with_separator s =
     (let ls = split_lines s in ls \<noteq> [] \<and> hd ls = separator \<and> last ls = separator)"

text \<open>
  The six lines the format contract lists for the general-information block: blank,
  ``Libraries compiled on'', ``Machine characteristics:'', ``Using PETSc directory:'',
  ``Using PETSc arch:'', separator.
\<close>

definition generalinfo_layout_spec :: "string list \<Rightarrow> bool" where
  "generalinfo_layout_spec ls =
     (case ls of
        [l0, l1, l2, l3, l4, l5] \<Rightarrow>
          l0 = [] \<and>
          starts_with ''Libraries compiled on '' l1 \<and>
          starts_with ''Machine characteristics: '' l2 \<and>
          starts_with ''Using PETSc directory: '' l3 \<and>
          starts_with ''Using PETSc arch: '' l4 \<and>
          l5 = separator
      | _ \<Rightarrow> False)"

section \<open>The capsule and its accessors\<close>

text \<open>
  Modelled from the spec: the record \<open>BuildInfoCapsule\<close> and its four accessors
  (getGeneralInfo, getCompilerInfo, getCompilerFlagsInfo, getLinkerInfo) are not in the
  header, which only declares the four variables. The specification describes the
  capsule as a record of four text fields and every accessor as a projection of it that
  returns the field verbatim, with no side effect. A call is modelled by state passing:
  it takes the state of the process (the capsule) and returns the text together with
  the state after the call.
\<close>

record BuildInfoCapsule =
  generalInfo :: string
  compilerInfo :: string
  compilerFlagsInfo :: string
  linkerInfo :: string

definition capsule :: BuildInfoCapsule where
  "capsule =
     \<lparr>generalInfo = petscmachineinfo,
      compilerInfo = petsccompilerinfo,
      compilerFlagsInfo = petsccompilerflagsinfo,
      linkerInfo = petsclinkerinfo\<rparr>"

datatype accessor = GetGeneralInfo | GetCompilerInfo | GetCompilerFlagsInfo | GetLinkerInfo

fun call :: "accessor \<Rightarrow> BuildInfoCapsule \<Rightarrow> string \<times> BuildInfoCapsule" where
  "call GetGeneralInfo s = (generalInfo s, s)"
| "call GetCompilerInfo s = (compilerInfo s, s)"
| "call GetCompilerFlagsInfo s = (compilerFlagsInfo s, s)"
| "call GetLinkerInfo s = (linkerInfo s, s)"

text \<open>A run of the process: the calls \<open>as\<close>, one after the other, each on the state the
  one before left; the texts returned, in order, and the last state.\<close>

fun run_calls :: "accessor list \<Rightarrow> BuildInfoCapsule \<Rightarrow> string list \<times> BuildInfoCapsule" where
  "run_calls [] s = ([], s)"
| "run_calls (a # as) s =
     (case call a s of (r, s') \<Rightarrow>
        (case run_calls as s' of (rs, s'') \<Rightarrow> (r # rs, s'')))"

section \<open>The lines of the four blocks\<close>

lemma separator_literal: "separator = ''-----------------------------------------''"
  by (simp add: separator_def eval_nat_numeral)

lemma machine_lines:
  "split_lines petscmachineinfo =
     [[], separator,
      ''Libraries compiled on 2024-07-18 12:51:25 on D2000 '',
      ''Machine characteristics: Linux-6.9.8-arm64-aarch64-with-glibc2.38'',
      ''Using PETSc directory: /home/seb/packages/petsc/3.20.3'',
      ''Using PETSc arch: '',
      separator]"
  by (simp add: split_lines_def petscmachineinfo_def separator_literal)

lemma compiler_lines:
  "split_lines petsccompilerinfo =
     [[],
      ''Using C compiler: gcc  -fPIC -Wall -Wwrite-strings -Wno-unknown-pragmas -Wno-lto-type-mismatch -Wno-stringop-overflow -fstack-protector -fvisibility=hidden -g3 -O0  '',
      ''Using Fortran compiler: gfortran  -fPIC -Wall -ffree-line-length-none -ffree-line-length-0 -Wno-lto-type-mismatch -Wno-unused-dummy-argument -g -O0    '',
      separator]"
  by (simp add: split_lines_def petsccompilerinfo_def separator_literal)

lemma compilerflags_lines:
  "split_lines petsccompilerflagsinfo =
     [[],
      ''Using include paths: -I/home/seb/packages/petsc/3.20.3/include'',
      separator]"
  by (simp add: split_lines_def petsccompilerflagsinfo_def separator_literal)

lemma linker_lines:
  "split_lines petsclinkerinfo =
     [[],
      ''Using C linker: gcc'',
      ''Using Fortran linker: gfortran'',
      ''Using libraries: -Wl,-rpath,/home/seb/packages/petsc/3.20.3/lib -L/home/seb/packages/petsc/3.20.3/lib -lpetsc -llapack -lblas -lm -lX11 -lgfortran -lstdc++'',
      separator]"
  by (simp add: split_lines_def petsclinkerinfo_def separator_literal)

lemma separator_length: "length separator = 41"
  by (simp add: separator_def)

lemma separator_hyphens: "set separator = {CHR ''-''}"
  by (simp add: separator_def)

section \<open>The accessors leave the capsule as it is\<close>

lemma call_snd: "snd (call a s) = s"
  by (cases a) simp_all

lemma run_calls_pure: "run_calls as s = (map (\<lambda>a. fst (call a s)) as, s)"
proof (induction as)
  case Nil
  show ?case by simp
next
  case (Cons a as)
  obtain r s' where c: "call a s = (r, s')" by (cases "call a s")
  with call_snd [of a s] have "s' = s" by simp
  with c Cons show ?case by simp
qed

lemma call_capsule:
  "fst (call GetGeneralInfo capsule) = petscmachineinfo \<and>
   fst (call GetCompilerInfo capsule) = petsccompilerinfo \<and>
   fst (call GetCompilerFlagsInfo capsule) = petsccompilerflagsinfo \<and>
   fst (call GetLinkerInfo capsule) = petsclinkerinfo"
  by (simp add: capsule_def)

section \<open>The format of the blocks\<close>

text \<open>
  Claim C1, as stated: each of the four blocks begins with a line of exactly 41 hyphens
  and ends with one. The compiler block refutes it: its first line is not a separator
  (it is blank), and no line of it before the last is a separator.
\<close>

theorem blocks_first_and_last_line_counterexample:
  "\<not> begins_and_ends_with_separator petsccompilerinfo \<and>
   separator \<notin> set (butlast (split_lines petsccompilerinfo))"
  by (simp add: begins_and_ends_with_separator_def compiler_lines separator_literal)

text \<open>
  Claim C1, amended: the separator is 41 hyphens; each of the four blocks begins with a
  blank line and ends with a separator line; in \<open>petscmachineinfo\<close> the line after the
  blank one is a separator too, in the other three blocks it is not.
\<close>

theorem blocks_first_and_last_line:
  "length separator = 41 \<and> set separator = {CHR ''-''} \<and>
   hd (split_lines petscmachineinfo) = [] \<and>
   split_lines petscmachineinfo ! 1 = separator \<and>
   last (split_lines petscmachineinfo) = separator \<and>
   hd (split_lines petsccompilerinfo) = [] \<and>
   split_lines petsccompilerinfo ! 1 \<noteq> separator \<and>
   last (split_lines petsccompilerinfo) = separator \<and>
   hd (split_lines petsccompilerflagsinfo) = [] \<and>
   split_lines petsccompilerflagsinfo ! 1 \<noteq> separator \<and>
   last (split_lines petsccompilerflagsinfo) = separator \<and>
   hd (split_lines petsclinkerinfo) = [] \<and>
   split_lines petsclinkerinfo ! 1 \<noteq> separator \<and>
   last (split_lines petsclinkerinfo) = separator"
  by (simp add: machine_lines compiler_lines compilerflags_lines linker_lines
      separator_length separator_hyphens)
    (simp add: separator_literal)

text \<open>
  Claim C2, as stated: the general-information block is exactly the six lines blank,
  ``Libraries compiled on'', ``Machine characteristics:'', ``Using PETSc directory:'',
  ``Using PETSc arch:'', separator. The block of the header does not have that layout:
  it has seven lines, the second of them a separator.
\<close>

theorem generalinfo_layout_counterexample:
  "\<not> generalinfo_layout_spec (split_lines petscmachineinfo)"
  by (simp add: generalinfo_layout_spec_def machine_lines)

text \<open>
  Claim C2, amended: the general-information block is exactly these seven lines, in this
  order: blank, separator, ``Libraries compiled on date time on host'' (with a space
  after the host), ``Machine characteristics: triple'', ``Using PETSc directory: path'',
  ``Using PETSc arch: '' with an empty arch, separator.
\<close>

theorem generalinfo_lines:
  "split_lines petscmachineinfo =
     [[],
      separator,
      ''Libraries compiled on '' @ ''2024-07-18'' @ '' '' @ ''12:51:25'' @ '' on '' @ ''D2000'' @ '' '',
      ''Machine characteristics: '' @ ''Linux-6.9.8-arm64-aarch64-with-glibc2.38'',
      ''Using PETSc directory: '' @ ''/home/seb/packages/petsc/3.20.3'',
      ''Using PETSc arch: '' @ [],
      separator]"
  by (simp add: machine_lines)

text \<open>
  Claim C3: each of the four texts an accessor returns (the accessors return the four
  variables verbatim) is non-empty, has at least one line, and its last line is the
  separator of 41 hyphens.
\<close>

theorem accessors_nonempty_separator_terminated:
  "petscmachineinfo \<noteq> [] \<and> split_lines petscmachineinfo \<noteq> [] \<and>
   last (split_lines petscmachineinfo) = separator \<and>
   petsccompilerinfo \<noteq> [] \<and> split_lines petsccompilerinfo \<noteq> [] \<and>
   last (split_lines petsccompilerinfo) = separator \<and>
   petsccompilerflagsinfo \<noteq> [] \<and> split_lines petsccompilerflagsinfo \<noteq> [] \<and>
   last (split_lines petsccompilerflagsinfo) = separator \<and>
   petsclinkerinfo \<noteq> [] \<and> split_lines petsclinkerinfo \<noteq> [] \<and>
   last (split_lines petsclinkerinfo) = separator"
  by (simp add: machine_lines compiler_lines compilerflags_lines linker_lines)
    (simp add: petscmachineinfo_def petsccompilerinfo_def petsccompilerflagsinfo_def
      petsclinkerinfo_def)

text \<open>
  Claim C4: the compiler block is exactly four lines, in this order: blank,
  ``Using C compiler: cc flags'', ``Using Fortran compiler: fc flags'', separator.
  Here cc is gcc, fc is gfortran, and both flag texts begin and end with spaces.
\<close>

theorem compilerinfo_lines:
  "split_lines petsccompilerinfo =
     [[],
      ''Using C compiler: '' @ ''gcc'' @ '' '' @
        '' -fPIC -Wall -Wwrite-strings -Wno-unknown-pragmas -Wno-lto-type-mismatch -Wno-stringop-overflow -fstack-protector -fvisibility=hidden -g3 -O0  '',
      ''Using Fortran compiler: '' @ ''gfortran'' @ '' '' @
        '' -fPIC -Wall -ffree-line-length-none -ffree-line-length-0 -Wno-lto-type-mismatch -Wno-unused-dummy-argument -g -O0    '',
      separator]"
  by (simp add: compiler_lines)

text \<open>
  Claim C5: the linker block is exactly five lines, in this order: blank,
  ``Using C linker: linker'', ``Using Fortran linker: linker'', ``Using libraries: flags'',
  separator; the flags, cut at the spaces, are a \<^verbatim>\<open>-Wl\<close> option, a \<^verbatim>\<open>-L\<close>
  option and seven \<^verbatim>\<open>-l\<close> options.
\<close>

theorem linkerinfo_lines:
  "split_lines petsclinkerinfo =
     [[],
      ''Using C linker: '' @ ''gcc'',
      ''Using Fortran linker: '' @ ''gfortran'',
      ''Using libraries: '' @
        ''-Wl,-rpath,/home/seb/packages/petsc/3.20.3/lib -L/home/seb/packages/petsc/3.20.3/lib -lpetsc -llapack -lblas -lm -lX11 -lgfortran -lstdc++'',
      separator] \<and>
   split_words (drop 17 (split_lines petsclinkerinfo ! 3)) =
     [''-Wl,-rpath,/home/seb/packages/petsc/3.20.3/lib'',
      ''-L/home/seb/packages/petsc/3.20.3/lib'',
      ''-lpetsc'', ''-llapack'', ''-lblas'', ''-lm'', ''-lX11'', ''-lgfortran'', ''-lstdc++'']"
  by (simp add: linker_lines split_words_def)

text \<open>
  Claim C6: the compiler block contains the text
  \<^verbatim>\<open>Using C compiler: gcc  -fPIC -Wall\<close>, with two spaces between gcc and -fPIC; it is
  the beginning of the second line of the block.
\<close>

theorem compilerinfo_gcc_double_space:
  "(\<exists>pre post. petsccompilerinfo = pre @ ''Using C compiler: gcc  -fPIC -Wall'' @ post) \<and>
   starts_with ''Using C compiler: gcc  -fPIC -Wall'' (split_lines petsccompilerinfo ! 1)"
proof
  have "petsccompilerinfo =
      ''\<newline>'' @ ''Using C compiler: gcc  -fPIC -Wall'' @ drop 35 petsccompilerinfo"
    by (simp add: petsccompilerinfo_def)
  then show "\<exists>pre post. petsccompilerinfo = pre @ ''Using C compiler: gcc  -fPIC -Wall'' @ post"
    by blast
  show "starts_with ''Using C compiler: gcc  -fPIC -Wall'' (split_lines petsccompilerinfo ! 1)"
    by (simp add: starts_with_def compiler_lines)
qed

text \<open>
  Claim C7: the arch label of this build is empty, and the general-information block
  still has its ``Using PETSc arch:'' line: the line is the colon followed by exactly
  one space, and the newline comes right after that space.
\<close>

theorem generalinfo_empty_arch_line:
  "split_lines petscmachineinfo ! 5 = ''Using PETSc arch:'' @ '' '' \<and>
   trailing_spaces (split_lines petscmachineinfo ! 5) = 1 \<and>
   (\<exists>pre post. petscmachineinfo = pre @ ''Using PETSc arch: \<newline>'' @ post)"
proof -
  have "petscmachineinfo =
      take 216 petscmachineinfo @ ''Using PETSc arch: \<newline>'' @ drop 235 petscmachineinfo"
    by (simp add: petscmachineinfo_def)
  then have "\<exists>pre post. petscmachineinfo = pre @ ''Using PETSc arch: \<newline>'' @ post"
    by blast
  then show ?thesis
    by (simp add: machine_lines trailing_spaces_def)
qed

text \<open>
  Claim C8: in any run of calls, in any order and of any length, two calls of the same
  accessor return the same text, and the run leaves the capsule as it was.
\<close>

theorem repeated_calls_identical:
  assumes "i < length as" and "j < length as" and "as ! i = as ! j"
  shows "fst (run_calls as s) ! i = fst (run_calls as s) ! j \<and> snd (run_calls as s) = s"
  using assms by (simp add: run_calls_pure)

theorem repeated_calls_identical_witness:
  "(0::nat) < length [GetCompilerInfo, GetGeneralInfo, GetCompilerInfo] \<and>
   (2::nat) < length [GetCompilerInfo, GetGeneralInfo, GetCompilerInfo] \<and>
   [GetCompilerInfo, GetGeneralInfo, GetCompilerInfo] ! 0 =
     [GetCompilerInfo, GetGeneralInfo, GetCompilerInfo] ! 2 \<and>
   fst (run_calls [GetCompilerInfo, GetGeneralInfo, GetCompilerInfo] capsule) ! 0 =
     fst (run_calls [GetCompilerInfo, GetGeneralInfo, GetCompilerInfo] capsule) ! 2 \<and>
   snd (run_calls [GetCompilerInfo, GetGeneralInfo, GetCompilerInfo] capsule) = capsule"
  using repeated_calls_identical
    [of 0 "[GetCompilerInfo, GetGeneralInfo, GetCompilerInfo]" 2 capsule]
  by simp

text \<open>
  Claim C9: the general-information block has exactly two separator lines, the second
  of its seven lines (right after the leading blank line) and the last; each of the
  other three blocks has exactly one separator line, its last line.
\<close>

theorem separator_positions:
  "separator_lines petscmachineinfo = [1, 6] \<and>
   length (split_lines petscmachineinfo) = 7 \<and>
   hd (split_lines petscmachineinfo) = [] \<and>
   separator_lines petsccompilerinfo = [3] \<and>
   length (split_lines petsccompilerinfo) = 4 \<and>
   separator_lines petsccompilerflagsinfo = [2] \<and>
   length (split_lines petsccompilerflagsinfo) = 3 \<and>
   separator_lines petsclinkerinfo = [4] \<and>
   length (split_lines petsclinkerinfo) = 5"
  by (simp add: separator_lines_def machine_lines compiler_lines compilerflags_lines
      linker_lines)
    (simp add: separator_literal)

text \<open>
  Claim C10: the ``Libraries compiled on'' line ends with exactly one space, the
  ``Using C compiler:'' line with exactly two and the ``Using Fortran compiler:'' line
  with exactly four.
\<close>

theorem trailing_whitespace:
  "split_lines petscmachineinfo ! 2 =
     ''Libraries compiled on 2024-07-18 12:51:25 on D2000'' @ replicate 1 (CHR '' '') \<and>
   trailing_spaces (split_lines petscmachineinfo ! 2) = 1 \<and>
   split_lines petsccompilerinfo ! 1 =
     ''Using C compiler: gcc  -fPIC -Wall -Wwrite-strings -Wno-unknown-pragmas -Wno-lto-type-mismatch -Wno-stringop-overflow -fstack-protector -fvisibility=hidden -g3 -O0'' @ replicate 2 (CHR '' '') \<and>
   trailing_spaces (split_lines petsccompilerinfo ! 1) = 2 \<and>
   split_lines petsccompilerinfo ! 2 =
     ''Using Fortran compiler: gfortran  -fPIC -Wall -ffree-line-length-none -ffree-line-length-0 -Wno-lto-type-mismatch -Wno-unused-dummy-argument -g -O0'' @ replicate 4 (CHR '' '') \<and>
   trailing_spaces (split_lines petsccompilerinfo ! 2) = 4"
  by (simp add: machine_lines compiler_lines trailing_spaces_def eval_nat_numeral)

end
